theory Spec2Isabelle
  imports Complex_Main "HOL-Library.Monad_Syntax" "HOL-Library.Sublist"
    "HOL-Library.Product_Lexorder"
begin

section \<open>Numbers, undefined entries and Python errors\<close>

text \<open>
  The program is \<^verbatim>\<open>src/vistransits/tsignals.py\<close>. Its numbers are floats held in numpy
  arrays. They are modelled by exact real arithmetic: a \<open>val\<close> is \<open>Some x\<close> for a
  finite number \<open>x\<close> and \<open>None\<close> otherwise. \<open>None\<close> is the NaN with which the catalog
  marks an undefined entry, which stays a NaN through every later operation of this
  program. \<open>None\<close> is also the result of an array operation that leaves the reals (a
  division by zero, the logarithm of a number that is not positive, the square root
  of a negative number): numpy does not raise there but goes on with a NaN or an
  infinity, and the model follows the value no further. Rounding and overflow are
  not modelled.
\<close>

type_synonym val = "real option"

datatype error = ValueError | IndexError | ZeroDivisionError

text \<open>How a run ends when it does not return the name of its output file.\<close>

datatype stop = Raises error | Returns_None

definition isfinite :: "val \<Rightarrow> bool" where
  "isfinite v = (v \<noteq> None)"

text \<open>The comparison \<^verbatim>\<open>column > 0\<close>: false on a NaN.\<close>

definition gt0 :: "val \<Rightarrow> bool" where
  "gt0 v = (case v of None \<Rightarrow> False | Some x \<Rightarrow> 0 < x)"

definition np_divide :: "real \<Rightarrow> real \<Rightarrow> val" where
  "np_divide x y = (if y = 0 then None else Some (x / y))"

definition np_sqrt :: "real \<Rightarrow> val" where
  "np_sqrt x = (if x < 0 then None else Some (sqrt x))"

definition np_log10 :: "real \<Rightarrow> val" where
  "np_log10 x = (if x \<le> 0 then None else Some (log 10 x))"

text \<open>Division of two array entries, either of which may already be a NaN.\<close>

definition val_divide :: "val \<Rightarrow> val \<Rightarrow> val" where
  "val_divide a b = do { x \<leftarrow> a; y \<leftarrow> b; np_divide x y }"

section \<open>Constants (lines 7 to 16)\<close>

definition G :: real where "G = 6.67428 / 10 ^ 11"
definition HPLANCK :: real where "HPLANCK = 6.62607 / 10 ^ 34"
definition C :: real where "C = 2.99792 * 10 ^ 8"
definition KB :: real where "KB = 1.3806488 / 10 ^ 23"
definition RGAS :: real where "RGAS = 8.314"
definition RSUN :: real where "RSUN = 6.9551 * 10 ^ 8"
definition RJUP :: real where "RJUP = 7.1492 * 10 ^ 7"
definition MJUP :: real where "MJUP = 1.89852 * 10 ^ 27"
definition AU2M :: real where "AU2M = 1.49598 * 10 ^ 11"
definition MUJUP :: real where "MUJUP = 2.22 / 10 ^ 3"

section \<open>The catalog\<close>

text \<open>
  One row of the table of transiting planets, with the columns the program reads.
  \<open>RA\<close> and \<open>DEC\<close> are text and are only copied to the report.
\<close>

record planet =
  NAME :: string
  RA :: string
  DEC :: string
  TEFF :: val
  RSTAR :: val
  R :: val
  A :: val
  KS :: val
  V :: val
  MASS :: val
  MSINI :: val

text \<open>
  The table read by \<^verbatim>\<open>atpy.Table( TR_TABLE )\<close>. \<open>has_MASS\<close> tells whether the table has
  a numeric \<open>MASS\<close> column: when it has none, reading \<^verbatim>\<open>t.MASS\<close> raises, which is
  what the two bare \<^verbatim>\<open>except:\<close> branches of the program catch, and the field
  \<open>MASS\<close> of the rows is then never read.
\<close>

record table =
  has_MASS :: bool
  rows :: "planet list"

text \<open>\<^verbatim>\<open>t.where( mask )\<close>: the table of the rows whose mask entry is true.\<close>

definition where_rows :: "(planet \<Rightarrow> bool) \<Rightarrow> table \<Rightarrow> table" where
  "where_rows keep t = t\<lparr>rows := filter keep (rows t)\<rparr>"

text \<open>
  \<^verbatim>\<open>filter_table\<close> (lines 242 to 265), on the table that was read. On bool arrays
  \<^verbatim>\<open>+\<close> is the disjunction and \<^verbatim>\<open>*\<close> the conjunction.
\<close>

definition filter_table :: "string \<Rightarrow> table \<Rightarrow> table" where
  "filter_table sigtype t0 =
    (let t = where_rows (\<lambda>r. isfinite (RSTAR r)) t0;
         t = where_rows (\<lambda>r. isfinite (R r)) t;
         t = where_rows (\<lambda>r. isfinite (A r)) t;
         t = where_rows (\<lambda>r. isfinite (TEFF r)) t;
         t = (if sigtype = ''emission''
              then where_rows (\<lambda>r. isfinite (KS r)) t else t);
         t = (if sigtype = ''transmission''
              then (let t = where_rows (\<lambda>r. isfinite (KS r) \<or> isfinite (V r)) t
                    in if has_MASS t
                       then where_rows (\<lambda>r. (isfinite (MSINI r) \<and> gt0 (MSINI r)) \<or>
                                             (isfinite (MASS r) \<and> gt0 (MASS r))) t
                       else where_rows (\<lambda>r. isfinite (MSINI r) \<and> gt0 (MSINI r)) t)
              else t)
     in t)"

text \<open>
  The required-field predicate in the words of the specification: every field the
  signal type requires is defined. Emission needs the K magnitude; transmission
  needs the K or the V magnitude, and the mass or the minimum mass.
\<close>

definition required_fields_defined :: "string \<Rightarrow> planet \<Rightarrow> bool" where
  "required_fields_defined sigtype r =
    (isfinite (RSTAR r) \<and> isfinite (R r) \<and> isfinite (A r) \<and> isfinite (TEFF r) \<and>
     (if sigtype = ''emission'' then isfinite (KS r) else True) \<and>
     (if sigtype = ''transmission''
      then (isfinite (KS r) \<or> isfinite (V r)) \<and> (isfinite (MASS r) \<or> isfinite (MSINI r))
      else True))"

text \<open>The condition the program tests on a row, with the sign tests on the masses.\<close>

definition selected :: "string \<Rightarrow> bool \<Rightarrow> planet \<Rightarrow> bool" where
  "selected sigtype mass_column r =
    (isfinite (RSTAR r) \<and> isfinite (R r) \<and> isfinite (A r) \<and> isfinite (TEFF r) \<and>
     (if sigtype = ''emission'' then isfinite (KS r) else True) \<and>
     (if sigtype = ''transmission''
      then (isfinite (KS r) \<or> isfinite (V r)) \<and>
           (gt0 (MSINI r) \<or> (if mass_column then gt0 (MASS r) else False))
      else True))"

section \<open>The physical model\<close>

text \<open>
  \<^verbatim>\<open>planck\<close> (lines 282 to 293). The wavelength is a Python scalar, so for
  \<^verbatim>\<open>wav = 0\<close> Python raises ZeroDivisionError; the runs below test that before they
  call \<open>planck\<close>. The temperature is an array entry.
\<close>

definition planck :: "real \<Rightarrow> real \<Rightarrow> val" where
  "planck wav temp = do {
     term1 \<leftarrow> np_divide (2 * HPLANCK * C ^ 2) (wav ^ 5);
     x \<leftarrow> np_divide (HPLANCK * C / KB) wav;
     y \<leftarrow> np_divide x temp;
     let term2 = exp y - 1;
     np_divide term1 term2
   }"

text \<open>\<^verbatim>\<open>Teq\<close> (lines 267 to 280), for one row of the table.\<close>

definition Teq :: "planet \<Rightarrow> val" where
  "Teq row = do {
     rstar \<leftarrow> RSTAR row;
     a0 \<leftarrow> A row;
     Tstar \<leftarrow> TEFF row;
     let Rstar = rstar * RSUN;
     let a = a0 * AU2M;
     q \<leftarrow> np_divide (Rstar / 2) a;
     s \<leftarrow> np_sqrt q;
     Some (s * Tstar)
   }"

section \<open>Signal estimates for one row\<close>

text \<open>
  The program turns a magnitude into an unnormalised signal-to-noise by the same four
  lines each time (lines 54 to 69, 79 to 82, 165 to 168, 170 to 173, 179 to 182,
  184 to 187, 197 to 201 and 203 to 205):
  \<^verbatim>\<open>bratio = planck( wav, t.TEFF ) / planck( wav_band, t.TEFF )\<close>,
  \<^verbatim>\<open>mag = m - 2.5 * np.log10( bratio )\<close>,
  \<^verbatim>\<open>flux_unnorm = 10**( -mag/2.5 )\<close>,
  \<^verbatim>\<open>snr_unnorm = np.sqrt( flux_unnorm ) * signal\<close>.
  \<open>snr_of_mag m wav wav_band teff signal\<close> is that computation for one row.
\<close>

definition snr_of_mag :: "val \<Rightarrow> real \<Rightarrow> real \<Rightarrow> val \<Rightarrow> val \<Rightarrow> val" where
  "snr_of_mag m wav wav_band teff signal = do {
     temp \<leftarrow> teff;
     p \<leftarrow> planck wav temp;
     p0 \<leftarrow> planck wav_band temp;
     bratio \<leftarrow> np_divide p p0;
     l \<leftarrow> np_log10 bratio;
     m0 \<leftarrow> m;
     let mag = m0 - 2.5 * l;
     let flux_unnorm = 10 powr (- mag / 2.5);
     s \<leftarrow> np_sqrt flux_unnorm;
     d \<leftarrow> signal;
     Some (s * d)
   }"

subsection \<open>Emission (lines 41 to 82)\<close>

text \<open>\<^verbatim>\<open>fratio\<close>, the planet-to-star flux ratio (lines 42 to 50).\<close>

definition fratio_ec :: "real \<Rightarrow> planet \<Rightarrow> val" where
  "fratio_ec wav r = do {
     Temp_eq \<leftarrow> Teq r;
     teff \<leftarrow> TEFF r;
     p \<leftarrow> planck wav Temp_eq;
     ps \<leftarrow> planck wav teff;
     bratio \<leftarrow> np_divide p ps;
     rp \<leftarrow> R r;
     rstar \<leftarrow> RSTAR r;
     q \<leftarrow> np_divide (rp * RJUP) (rstar * RSUN);
     Some (bratio * q ^ 2)
   }"

text \<open>
  \<^verbatim>\<open>snr_unnorm\<close> (lines 54 to 69). Lines 77 to 82 compute \<^verbatim>\<open>snr_ref\<close> by the same
  expressions, with \<^verbatim>\<open>wav_ref\<close> for \<^verbatim>\<open>wav\<close>, on the rows named \<^verbatim>\<open>obj_ref\<close>.
\<close>

definition snr_unnorm_ec :: "real \<Rightarrow> planet \<Rightarrow> val" where
  "snr_unnorm_ec wav r = snr_of_mag (KS r) wav (2.2 / 10 ^ 6) (TEFF r) (fratio_ec wav r)"

subsection \<open>Transmission (lines 118 to 205)\<close>

definition n_heights :: real where
  "n_heights = 1"

text \<open>
  \<^verbatim>\<open>MPLANET\<close> (lines 142 to 148). The \<^verbatim>\<open>except\<close> branch runs when reading
  \<^verbatim>\<open>t.MASS[i]\<close> raises, that is when the table has no \<open>MASS\<close> column. A NaN in the
  column converts to a float without raising, and is stored.
\<close>

definition MPLANET :: "bool \<Rightarrow> planet \<Rightarrow> val" where
  "MPLANET mass_column r = (if mass_column then MASS r else MSINI r)"

definition little_g :: "bool \<Rightarrow> planet \<Rightarrow> val" where
  "little_g mass_column r = do {
     m \<leftarrow> MPLANET mass_column r;
     rp \<leftarrow> R r;
     np_divide (G * m * MJUP) ((rp * RJUP) ^ 2)
   }"

definition Hatm :: "bool \<Rightarrow> planet \<Rightarrow> val" where
  "Hatm mass_column r = do {
     Temp_eq \<leftarrow> Teq r;
     g \<leftarrow> little_g mass_column r;
     np_divide (RGAS * Temp_eq / MUJUP) g
   }"

definition depth_tr :: "planet \<Rightarrow> val" where
  "depth_tr r = do {
     rp \<leftarrow> R r;
     rstar \<leftarrow> RSTAR r;
     q \<leftarrow> np_divide (rp * RJUP) (rstar * RSUN);
     Some (q ^ 2)
   }"

text \<open>\<^verbatim>\<open>delta_tr\<close> (line 160); line 196 is the same expression on the reference rows.\<close>

definition delta_tr :: "bool \<Rightarrow> planet \<Rightarrow> val" where
  "delta_tr mass_column r = do {
     rp \<leftarrow> R r;
     H \<leftarrow> Hatm mass_column r;
     rstar \<leftarrow> RSTAR r;
     np_divide (2 * n_heights * (rp * RJUP) * H) ((rstar * RSUN) ^ 2)
   }"

text \<open>
  \<^verbatim>\<open>snr_unnorm_vis\<close> and \<^verbatim>\<open>snr_unnorm_ir\<close> (lines 165 to 187): first computed from
  \<^verbatim>\<open>t.KS\<close> for every row, then overwritten for the rows of
  \<^verbatim>\<open>ixs = ( np.isfinite( t.KS )==False )\<close>. Line 180 reads \<^verbatim>\<open>t.V[ixs]\<close> with
  \<^verbatim>\<open>0.6e-6\<close>; line 185 reads \<^verbatim>\<open>t.KS[ixs]\<close> with \<^verbatim>\<open>2.2e-6\<close>.
\<close>

definition snr_unnorm_vis :: "bool \<Rightarrow> real \<Rightarrow> planet \<Rightarrow> val" where
  "snr_unnorm_vis mass_column wav_vis r =
    (if \<not> isfinite (KS r)
     then snr_of_mag (V r) wav_vis (0.6 / 10 ^ 6) (TEFF r) (delta_tr mass_column r)
     else snr_of_mag (KS r) wav_vis (2.2 / 10 ^ 6) (TEFF r) (delta_tr mass_column r))"

definition snr_unnorm_ir :: "bool \<Rightarrow> real \<Rightarrow> planet \<Rightarrow> val" where
  "snr_unnorm_ir mass_column wav_ir r =
    (if \<not> isfinite (KS r)
     then snr_of_mag (KS r) wav_ir (2.2 / 10 ^ 6) (TEFF r) (delta_tr mass_column r)
     else snr_of_mag (KS r) wav_ir (2.2 / 10 ^ 6) (TEFF r) (delta_tr mass_column r))"

text \<open>
  The reference scores (lines 196 to 205): both use
  \<^verbatim>\<open>kratio_ref = planck( wav_ref, t.TEFF[ii] ) / planck( 2.2e-6, t.TEFF[ii] )\<close>, the
  infrared one with \<^verbatim>\<open>t.KS[ii]\<close> and the visible one with \<^verbatim>\<open>t.V[ii]\<close>.
\<close>

definition snr_ref_ir :: "bool \<Rightarrow> real \<Rightarrow> planet \<Rightarrow> val" where
  "snr_ref_ir mass_column wav_ref r =
     snr_of_mag (KS r) wav_ref (2.2 / 10 ^ 6) (TEFF r) (delta_tr mass_column r)"

definition snr_ref_vis :: "bool \<Rightarrow> real \<Rightarrow> planet \<Rightarrow> val" where
  "snr_ref_vis mass_column wav_ref r =
     snr_of_mag (V r) wav_ref (2.2 / 10 ^ 6) (TEFF r) (delta_tr mass_column r)"

section \<open>Arrays\<close>

text \<open>
  \<^verbatim>\<open>a / b\<close> on two one-dimensional arrays: numpy broadcasts an array of length one,
  divides entry by entry when the lengths agree, and raises ValueError otherwise.
\<close>

definition broadcast_divide :: "val list \<Rightarrow> val list \<Rightarrow> error + val list" where
  "broadcast_divide a b =
    (if length b = 1 then Inr (map (\<lambda>x. val_divide x (hd b)) a)
     else if length a = 1 then Inr (map (\<lambda>y. val_divide (hd a) y) b)
     else if length a = length b then Inr (map2 val_divide a b)
     else Inl ValueError)"

text \<open>
  The truth value Python takes of a bool array in \<^verbatim>\<open>if\<close> and \<^verbatim>\<open>or\<close>: that of its
  entry when it has one, false when it is empty (the numpy of this Python 2 program),
  ValueError when it has several.
\<close>

fun truth :: "bool list \<Rightarrow> error + bool" where
  "truth [] = Inr False"
| "truth [b] = Inr b"
| "truth (b # c # bs) = Inl ValueError"

text \<open>Indexing an array or a column: IndexError out of range.\<close>

definition lookup :: "'a list \<Rightarrow> nat \<Rightarrow> error + 'a" where
  "lookup xs i = (if i < length xs then Inr (xs ! i) else Inl IndexError)"

text \<open>
  \<^verbatim>\<open>np.argsort\<close> is numpy's: the indices of the array in ascending order of their
  entries, NaN last. What it does with equal entries is left to its algorithm; the
  model keeps them in index order, as a stable sort does.
\<close>

definition nan_last :: "val \<Rightarrow> bool \<times> real" where
  "nan_last v = (case v of None \<Rightarrow> (True, 0) | Some x \<Rightarrow> (False, x))"

definition argsort :: "val list \<Rightarrow> nat list" where
  "argsort xs = sort_key (\<lambda>i. nan_last (xs ! i)) [0..<length xs]"

text \<open>\<^verbatim>\<open>s = np.argsort( snr_norm ); s = s[::-1]\<close> (lines 89 to 90 and 213 to 214).\<close>

definition rank_order :: "val list \<Rightarrow> nat list" where
  "rank_order snr_norm = rev (argsort snr_norm)"

text \<open>
  The order of two scores at consecutive ranks: the first is a NaN, or both are
  numbers and the second is not above the first.
\<close>

definition not_below :: "val \<Rightarrow> val \<Rightarrow> bool" where
  "not_below a b =
    (case a of None \<Rightarrow> True
     | Some x \<Rightarrow> (case b of None \<Rightarrow> False | Some y \<Rightarrow> y \<le> x))"

section \<open>The output file\<close>

text \<open>
  The report is text in fixed-width columns. A line of it is modelled by what the
  program passes to the function that formats it: \<open>Header nplanets\<close> for the header
  (\<^verbatim>\<open>make_header_ec\<close>, \<^verbatim>\<open>make_header_tr\<close>), and \<open>Entry rank name scores\<close> for the line
  of a planet, with its normalised signal-to-noise values; the other columns are
  copies of the row. The formatting of \<open>RA\<close> and \<open>DEC\<close> by \<^verbatim>\<open>ephem\<close> is left out.
\<close>

datatype line = Header nat | Entry nat string "val list"

text \<open>
  A run: how it ended (\<open>None\<close> when it returned the name of its output file), and
  the output file, \<open>None\<close> as long as the run has not opened it.
\<close>

record run =
  ending :: "stop option"
  outfile :: "line list option"

text \<open>
  \<^verbatim>\<open>make_outstr_ec\<close> and \<^verbatim>\<open>make_outstr_tr\<close> (lines 433 to 542) convert
  \<^verbatim>\<open>int( tstar )\<close>, \<^verbatim>\<open>int( tpeq )\<close> and \<^verbatim>\<open>int( hatm / (1e3) )\<close>, and Python
  raises ValueError on a NaN there.
\<close>

definition make_outstr_ec :: "nat \<Rightarrow> planet \<Rightarrow> val \<Rightarrow> val \<Rightarrow> error + line" where
  "make_outstr_ec rank r tpeq snr_norm =
    (if TEFF r = None \<or> tpeq = None then Inl ValueError
     else Inr (Entry rank (NAME r) [snr_norm]))"

definition make_outstr_tr :: "nat \<Rightarrow> planet \<Rightarrow> val \<Rightarrow> val \<Rightarrow> val \<Rightarrow> val \<Rightarrow> error + line" where
  "make_outstr_tr rank r tpeq hatm snr_norm_vis snr_norm_ir =
    (if tpeq = None \<or> hatm = None then Inl ValueError
     else Inr (Entry rank (NAME r) [snr_norm_vis, snr_norm_ir]))"

text \<open>
  The loop \<^verbatim>\<open>for j in range( nplanets )\<close> that writes the lines (lines 97 to 103 and
  221 to 236): an exception leaves the file with the lines written so far.
\<close>

fun write_loop :: "(nat \<Rightarrow> error + line) \<Rightarrow> nat list \<Rightarrow> line list \<Rightarrow> run" where
  "write_loop outstr [] file = \<lparr>ending = None, outfile = Some file\<rparr>"
| "write_loop outstr (j # js) file =
    (case outstr j of
       Inl e \<Rightarrow> \<lparr>ending = Some (Raises e), outfile = Some file\<rparr>
     | Inr l \<Rightarrow> write_loop outstr js (file @ [l]))"

section \<open>The emission run (lines 22 to 106)\<close>

text \<open>
  The normalised signal-to-noise of every row (lines 33 to 86), on the table that was
  read. \<^verbatim>\<open>ii = ( t.NAME==obj_ref )\<close> selects the rows named \<^verbatim>\<open>obj_ref\<close>.
\<close>

definition emission_snr_norm :: "real \<Rightarrow> real \<Rightarrow> string \<Rightarrow> table \<Rightarrow> error + val list" where
  "emission_snr_norm wav0 wav_ref0 obj_ref tbl =
    (let wav = wav0 / 10 ^ 6;
         wav_ref = wav_ref0 / 10 ^ 6;
         t = rows (filter_table ''emission'' tbl);
         ii = filter (\<lambda>r. NAME r = obj_ref) t
     in if wav = 0 \<or> wav_ref = 0 then Inl ZeroDivisionError
        else broadcast_divide (map (snr_unnorm_ec wav) t) (map (snr_unnorm_ec wav_ref) ii))"

definition entry_ec :: "real \<Rightarrow> planet list \<Rightarrow> nat list \<Rightarrow> val list \<Rightarrow> nat \<Rightarrow> error + line" where
  "entry_ec wav t s snr_norm j =
    (case lookup s j of Inl e \<Rightarrow> Inl e | Inr i \<Rightarrow>
      (case lookup t i of Inl e \<Rightarrow> Inl e | Inr r \<Rightarrow>
        (case lookup snr_norm i of Inl e \<Rightarrow> Inl e | Inr x \<Rightarrow>
           make_outstr_ec (j + 1) r (Teq r) x)))"

definition emission :: "real \<Rightarrow> real \<Rightarrow> string \<Rightarrow> table \<Rightarrow> run" where
  "emission wav0 wav_ref0 obj_ref tbl =
    (case emission_snr_norm wav0 wav_ref0 obj_ref tbl of
       Inl e \<Rightarrow> \<lparr>ending = Some (Raises e), outfile = None\<rparr>
     | Inr snr_norm \<Rightarrow>
         (let t = rows (filter_table ''emission'' tbl);
              nplanets = length t;
              s = rank_order snr_norm
          in write_loop (entry_ec (wav0 / 10 ^ 6) t s snr_norm) [0..<nplanets] [Header nplanets]))"

section \<open>The transmission run (lines 108 to 239)\<close>

text \<open>
  The test of lines 132 to 135 on the rows named \<^verbatim>\<open>obj_ref\<close>:
  \<^verbatim>\<open>( np.isfinite( t.KS[ix] )==False ) or ( np.isfinite( t.V[ix] )==False )\<close>.
\<close>

definition lacks_magnitude :: "planet list \<Rightarrow> error + bool" where
  "lacks_magnitude ix =
    (case truth (map (\<lambda>r. \<not> isfinite (KS r)) ix) of
       Inl e \<Rightarrow> Inl e
     | Inr True \<Rightarrow> Inr True
     | Inr False \<Rightarrow> truth (map (\<lambda>r. \<not> isfinite (V r)) ix))"

text \<open>
  The normalised visible and infrared signal-to-noise of every row (lines 120 to
  210). When the test above holds the program prints its message and returns
  \<^verbatim>\<open>None\<close>.
\<close>

definition transmission_snr_norm ::
  "real \<Rightarrow> real \<Rightarrow> real \<Rightarrow> string \<Rightarrow> table \<Rightarrow> stop + (val list \<times> val list)" where
  "transmission_snr_norm wav_vis0 wav_ir0 wav_ref0 obj_ref tbl =
    (let wav_vis = wav_vis0 / 10 ^ 6;
         wav_ir = wav_ir0 / 10 ^ 6;
         wav_ref = wav_ref0 / 10 ^ 6;
         tt = filter_table ''transmission'' tbl;
         t = rows tt;
         mc = has_MASS tt;
         ix = filter (\<lambda>r. NAME r = obj_ref) t
     in case lacks_magnitude ix of
          Inl e \<Rightarrow> Inl (Raises e)
        | Inr True \<Rightarrow> Inl Returns_None
        | Inr False \<Rightarrow>
            if wav_vis = 0 \<or> wav_ir = 0 \<or> wav_ref = 0 then Inl (Raises ZeroDivisionError)
            else
              (case broadcast_divide (map (snr_unnorm_vis mc wav_vis) t)
                                     (map (snr_ref_vis mc wav_ref) ix) of
                 Inl e \<Rightarrow> Inl (Raises e)
               | Inr snr_norm_vis \<Rightarrow>
                   (case broadcast_divide (map (snr_unnorm_ir mc wav_ir) t)
                                          (map (snr_ref_ir mc wav_ref) ix) of
                      Inl e \<Rightarrow> Inl (Raises e)
                    | Inr snr_norm_ir \<Rightarrow> Inr (snr_norm_vis, snr_norm_ir))))"

definition entry_tr ::
  "bool \<Rightarrow> planet list \<Rightarrow> nat list \<Rightarrow> val list \<Rightarrow> val list \<Rightarrow> nat \<Rightarrow> error + line" where
  "entry_tr mc t s snr_norm_vis snr_norm_ir j =
    (case lookup s j of Inl e \<Rightarrow> Inl e | Inr i \<Rightarrow>
      (case lookup t i of Inl e \<Rightarrow> Inl e | Inr r \<Rightarrow>
        (case lookup snr_norm_vis i of Inl e \<Rightarrow> Inl e | Inr x \<Rightarrow>
          (case lookup snr_norm_ir i of Inl e \<Rightarrow> Inl e | Inr y \<Rightarrow>
             make_outstr_tr (j + 1) r (Teq r) (Hatm mc r) x y))))"

definition transmission :: "real \<Rightarrow> real \<Rightarrow> real \<Rightarrow> string \<Rightarrow> table \<Rightarrow> run" where
  "transmission wav_vis0 wav_ir0 wav_ref0 obj_ref tbl =
    (case transmission_snr_norm wav_vis0 wav_ir0 wav_ref0 obj_ref tbl of
       Inl st \<Rightarrow> \<lparr>ending = Some st, outfile = None\<rparr>
     | Inr (snr_norm_vis, snr_norm_ir) \<Rightarrow>
         (let tt = filter_table ''transmission'' tbl;
              t = rows tt;
              nplanets = length t;
              s = rank_order snr_norm_vis
          in write_loop (entry_tr (has_MASS tt) t s snr_norm_vis snr_norm_ir)
               [0..<nplanets] [Header nplanets]))"

section \<open>Example catalog rows\<close>

text \<open>Rows used to run the definitions on concrete catalogs.\<close>

definition wasp19b :: planet where
  "wasp19b = \<lparr>NAME = ''WASP-19 b'', RA = ''9.89'', DEC = ''-45.66'',
     TEFF = Some 5500, RSTAR = Some 1, R = Some 1.4, A = Some 0.016,
     KS = Some 10.5, V = Some 12.3, MASS = Some 1.1, MSINI = Some 1.1\<rparr>"

definition hd209458b :: planet where
  "hd209458b = \<lparr>NAME = ''HD 209458 b'', RA = ''22.05'', DEC = ''18.88'',
     TEFF = Some 6065, RSTAR = Some 1.155, R = Some 1.359, A = Some 0.04707,
     KS = Some 6.308, V = Some 7.65, MASS = Some 0.69, MSINI = Some 0.69\<rparr>"

text \<open>A row whose mass is the number zero and whose minimum mass is undefined.\<close>

definition zero_mass_planet :: planet where
  "zero_mass_planet = \<lparr>NAME = ''Kepler-0 b'', RA = ''19.0'', DEC = ''45.0'',
     TEFF = Some 5700, RSTAR = Some 1, R = Some 0.3, A = Some 0.05,
     KS = Some 11, V = Some 12.5, MASS = Some 0, MSINI = None\<rparr>"

text \<open>A row with a V magnitude and no K magnitude.\<close>

definition no_ks_planet :: planet where
  "no_ks_planet = \<lparr>NAME = ''KOI-1 b'', RA = ''19.5'', DEC = ''41.0'',
     TEFF = Some 5800, RSTAR = Some 1.1, R = Some 1.2, A = Some 0.04,
     KS = None, V = Some 12, MASS = Some 0.8, MSINI = Some 0.8\<rparr>"

text \<open>A row with a minimum mass and no mass.\<close>

definition msini_only_planet :: planet where
  "msini_only_planet = \<lparr>NAME = ''GJ-1 b'', RA = ''11.7'', DEC = ''26.7'',
     TEFF = Some 3700, RSTAR = Some 0.45, R = Some 0.37, A = Some 0.029,
     KS = Some 6.1, V = Some 10.6, MASS = None, MSINI = Some 1\<rparr>"

text \<open>A catalog of two rows, both with every field defined.\<close>

definition two_planets :: table where
  "two_planets = \<lparr>has_MASS = True, rows = [hd209458b, wasp19b]\<rparr>"

text \<open>Catalogs for the runs below.\<close>

definition one_planet :: table where
  "one_planet = \<lparr>has_MASS = True, rows = [hd209458b]\<rparr>"

definition no_ks_catalog :: table where
  "no_ks_catalog = \<lparr>has_MASS = True, rows = [wasp19b, no_ks_planet]\<rparr>"

definition msini_only_catalog :: table where
  "msini_only_catalog = \<lparr>has_MASS = True, rows = [wasp19b, msini_only_planet]\<rparr>"

section \<open>Properties of the physical model\<close>

lemma consts_pos:
  "0 < G" "0 < HPLANCK" "0 < C" "0 < KB" "0 < RGAS" "0 < RSUN" "0 < RJUP" "0 < MJUP"
  "0 < AU2M" "0 < MUJUP"
  by (simp_all add: G_def HPLANCK_def C_def KB_def RGAS_def RSUN_def RJUP_def MJUP_def
      AU2M_def MUJUP_def)

lemma planck_value:
  assumes "0 < wav" "0 < temp"
  shows "planck wav temp =
    Some (2 * HPLANCK * C ^ 2 / wav ^ 5 / (exp (HPLANCK * C / KB / wav / temp) - 1))"
proof -
  define y where "y = HPLANCK * C / KB / wav / temp"
  have "0 < y"
    unfolding y_def using assms consts_pos by simp
  then have "exp y - 1 \<noteq> 0"
    by simp
  moreover have "wav ^ 5 \<noteq> 0" "wav \<noteq> 0" "temp \<noteq> 0"
    using assms by simp_all
  ultimately show ?thesis
    unfolding planck_def np_divide_def Let_def y_def[symmetric]
    by (simp only: if_False bind.bind_lunit y_def[symmetric])
qed

lemma planck_pos:
  assumes "0 < wav" "0 < temp"
  shows "0 < 2 * HPLANCK * C ^ 2 / wav ^ 5 / (exp (HPLANCK * C / KB / wav / temp) - 1)"
proof -
  have "0 < HPLANCK * C / KB / wav / temp"
    using assms consts_pos by simp
  then have "0 < exp (HPLANCK * C / KB / wav / temp) - 1"
    by simp
  moreover have "0 < 2 * HPLANCK * C ^ 2 / wav ^ 5"
    using assms consts_pos by simp
  ultimately show ?thesis
    by (rule divide_pos_pos[rotated])
qed

lemma planck_mono:
  assumes "0 < wav" "0 < T1" "T1 < T2"
  shows "2 * HPLANCK * C ^ 2 / wav ^ 5 / (exp (HPLANCK * C / KB / wav / T1) - 1)
       < 2 * HPLANCK * C ^ 2 / wav ^ 5 / (exp (HPLANCK * C / KB / wav / T2) - 1)"
proof -
  have k: "0 < HPLANCK * C / KB / wav"
    using assms consts_pos by simp
  have "HPLANCK * C / KB / wav / T2 < HPLANCK * C / KB / wav / T1"
    using assms(3) k by (rule divide_strict_left_mono) (use assms in simp)
  then have lt: "exp (HPLANCK * C / KB / wav / T2) - 1 < exp (HPLANCK * C / KB / wav / T1) - 1"
    by simp
  have "0 < T2" using assms by simp
  with k have "0 < HPLANCK * C / KB / wav / T2"
    by (rule divide_pos_pos)
  then have pos: "0 < exp (HPLANCK * C / KB / wav / T2) - 1"
    by simp
  have c: "0 < 2 * HPLANCK * C ^ 2 / wav ^ 5"
    using assms consts_pos by simp
  show ?thesis
    using lt c by (rule divide_strict_left_mono) (use lt pos in simp)
qed

text \<open>
  Claim C7. For every wavelength and temperature above zero, \<open>planck\<close> has a value, the
  value is above zero, and at every higher temperature it has a strictly greater
  value (real arithmetic).
\<close>

theorem planck_positive_increasing:
  assumes "0 < wav" "0 < temp"
  shows "\<exists>b. planck wav temp = Some b \<and> 0 < b \<and>
           (\<forall>temp'. temp < temp' \<longrightarrow> (\<exists>b'. planck wav temp' = Some b' \<and> b < b'))"
proof (intro exI conjI allI impI)
  show "planck wav temp =
    Some (2 * HPLANCK * C ^ 2 / wav ^ 5 / (exp (HPLANCK * C / KB / wav / temp) - 1))"
    using assms by (rule planck_value)
  show "0 < 2 * HPLANCK * C ^ 2 / wav ^ 5 / (exp (HPLANCK * C / KB / wav / temp) - 1)"
    using assms by (rule planck_pos)
  fix temp' :: real
  assume lt: "temp < temp'"
  then have "0 < temp'" using assms by simp
  then show "planck wav temp' =
    Some (2 * HPLANCK * C ^ 2 / wav ^ 5 / (exp (HPLANCK * C / KB / wav / temp') - 1))"
    using assms by (intro planck_value)
  show "2 * HPLANCK * C ^ 2 / wav ^ 5 / (exp (HPLANCK * C / KB / wav / temp) - 1)
      < 2 * HPLANCK * C ^ 2 / wav ^ 5 / (exp (HPLANCK * C / KB / wav / temp') - 1)"
    using assms lt by (intro planck_mono)
qed

theorem planck_positive_increasing_witness:
  "(0::real) < 2.2 / 10 ^ 6 \<and> (0::real) < 5000 \<and>
   (\<exists>b. planck (2.2 / 10 ^ 6) 5000 = Some b \<and> 0 < b \<and>
        (\<exists>b'. planck (2.2 / 10 ^ 6) 6000 = Some b' \<and> b < b'))"
proof -
  have w: "(0::real) < 2.2 / 10 ^ 6" and t: "(0::real) < 5000"
    by simp_all
  from planck_positive_increasing[OF w t]
  obtain b where b: "planck (2.2 / 10 ^ 6) 5000 = Some b" "0 < b"
    and up: "\<forall>temp'. 5000 < temp' \<longrightarrow>
               (\<exists>b'. planck (2.2 / 10 ^ 6) temp' = Some b' \<and> b < b')"
    by blast
  from up have "\<exists>b'. planck (2.2 / 10 ^ 6) 6000 = Some b' \<and> b < b'"
    by simp
  with b w t show ?thesis by blast
qed

lemma Teq_value:
  assumes "RSTAR row = Some rstar" "A row = Some a" "TEFF row = Some tstar"
    and "0 \<le> rstar" "0 < a"
  shows "Teq row = Some (sqrt (rstar * RSUN / 2 / (a * AU2M)) * tstar)"
proof -
  have "a * AU2M \<noteq> 0" using assms consts_pos by simp
  moreover have "\<not> rstar * RSUN / 2 / (a * AU2M) < 0"
    using assms consts_pos by (simp add: not_less)
  ultimately show ?thesis
    using assms by (simp add: Teq_def np_divide_def np_sqrt_def Let_def)
qed

text \<open>
  Claim C8. The equilibrium temperature of a row is
  \<open>sqrt (R_star / (2 a)) * T_star\<close>, with the stellar radius and the semimajor axis
  in metres, and twice the semimajor axis gives that temperature divided by
  \<open>sqrt 2\<close>.
\<close>

theorem Teq_formula_and_scaling:
  assumes "RSTAR row = Some rstar" "A row = Some a" "TEFF row = Some tstar"
    and "0 \<le> rstar" "0 < a"
  shows "Teq row = Some (sqrt (rstar * RSUN / (2 * (a * AU2M))) * tstar) \<and>
         Teq (row\<lparr>A := Some (2 * a)\<rparr>) =
           Some (sqrt (rstar * RSUN / (2 * (a * AU2M))) * tstar / sqrt 2)"
proof
  show "Teq row = Some (sqrt (rstar * RSUN / (2 * (a * AU2M))) * tstar)"
    using Teq_value[OF assms] by simp
  have "Teq (row\<lparr>A := Some (2 * a)\<rparr>) =
          Some (sqrt (rstar * RSUN / 2 / (2 * a * AU2M)) * tstar)"
    using assms by (intro Teq_value) simp_all
  moreover have "rstar * RSUN / 2 / (2 * a * AU2M) = rstar * RSUN / (2 * (a * AU2M)) / 2"
    by simp
  moreover have "sqrt (rstar * RSUN / (2 * (a * AU2M)) / 2) =
      sqrt (rstar * RSUN / (2 * (a * AU2M))) / sqrt 2"
    by (rule real_sqrt_divide)
  ultimately show "Teq (row\<lparr>A := Some (2 * a)\<rparr>) =
           Some (sqrt (rstar * RSUN / (2 * (a * AU2M))) * tstar / sqrt 2)"
    by (simp only: times_divide_eq_left)
qed

theorem Teq_formula_and_scaling_witness:
  "RSTAR wasp19b = Some 1 \<and> A wasp19b = Some 0.016 \<and> TEFF wasp19b = Some 5500 \<and>
   Teq wasp19b = Some (sqrt (1 * RSUN / (2 * (0.016 * AU2M))) * 5500) \<and>
   Teq (wasp19b\<lparr>A := Some (2 * 0.016)\<rparr>) =
     Some (sqrt (1 * RSUN / (2 * (0.016 * AU2M))) * 5500 / sqrt 2)"
proof -
  have f: "RSTAR wasp19b = Some 1" "A wasp19b = Some 0.016" "TEFF wasp19b = Some 5500"
    by (simp_all add: wasp19b_def)
  have "(0::real) \<le> 1" "(0::real) < 0.016"
    by simp_all
  from Teq_formula_and_scaling[OF f this] f show ?thesis
    by blast
qed

section \<open>Properties of the catalog filter\<close>

lemma rows_where_rows: "rows (where_rows keep t) = filter keep (rows t)"
  by (simp add: where_rows_def)

lemma has_MASS_where_rows: "has_MASS (where_rows keep t) = has_MASS t"
  by (simp add: where_rows_def)

lemma has_MASS_filter_table: "has_MASS (filter_table sigtype t) = has_MASS t"
  by (simp add: filter_table_def Let_def has_MASS_where_rows)

lemma rows_filter_table:
  "rows (filter_table sigtype t) = filter (selected sigtype (has_MASS t)) (rows t)"
proof -
  have "rows (filter_table sigtype t) =
    filter (\<lambda>r. isfinite (RSTAR r) \<and> isfinite (R r) \<and> isfinite (A r) \<and> isfinite (TEFF r) \<and>
     (if sigtype = ''emission'' then isfinite (KS r) else True) \<and>
     (if sigtype = ''transmission''
      then (isfinite (KS r) \<or> isfinite (V r)) \<and>
           (if has_MASS t
            then (isfinite (MSINI r) \<and> gt0 (MSINI r)) \<or> (isfinite (MASS r) \<and> gt0 (MASS r))
            else isfinite (MSINI r) \<and> gt0 (MSINI r))
      else True)) (rows t)"
    by (simp add: filter_table_def Let_def rows_where_rows has_MASS_where_rows conj_ac
        cong: filter_cong)
  also have "\<dots> = filter (selected sigtype (has_MASS t)) (rows t)"
    by (rule filter_cong) (auto simp: selected_def isfinite_def gt0_def split: option.splits)
  finally show ?thesis .
qed

text \<open>
  Claim C9, amended. The filtered table holds, in catalog order and once each, the
  rows that pass the tests of the program: for emission these are the rows whose
  required fields are all defined; for transmission a row needs, beside its defined
  fields, a minimum mass above zero or (in a table with a mass column) a mass above
  zero.
\<close>

theorem filter_table_selected:
  "rows (filter_table sigtype t) = filter (selected sigtype (has_MASS t)) (rows t) \<and>
   subseq (rows (filter_table sigtype t)) (rows t) \<and>
   (sigtype = ''emission'' \<longrightarrow>
      rows (filter_table sigtype t) = filter (required_fields_defined sigtype) (rows t))"
proof (intro conjI impI)
  show eq: "rows (filter_table sigtype t) = filter (selected sigtype (has_MASS t)) (rows t)"
    by (rule rows_filter_table)
  show "subseq (rows (filter_table sigtype t)) (rows t)"
    unfolding eq by (rule subseq_filter_left)
  assume "sigtype = ''emission''"
  then have "selected sigtype (has_MASS t) = required_fields_defined sigtype"
    by (auto simp: selected_def required_fields_defined_def fun_eq_iff)
  then show "rows (filter_table sigtype t) = filter (required_fields_defined sigtype) (rows t)"
    using eq by simp
qed

text \<open>
  Claim C9 as stated fails: a row with every required field defined, its mass being
  zero, is not in the table filtered for transmission.
\<close>

theorem filter_table_required_counterexample:
  "required_fields_defined ''transmission'' zero_mass_planet \<and>
   zero_mass_planet \<in> set (rows \<lparr>has_MASS = True, rows = [wasp19b, zero_mass_planet]\<rparr>) \<and>
   zero_mass_planet \<notin>
     set (rows (filter_table ''transmission'' \<lparr>has_MASS = True, rows = [wasp19b, zero_mass_planet]\<rparr>))"
  by (simp add: rows_filter_table selected_def required_fields_defined_def isfinite_def gt0_def
      zero_mass_planet_def wasp19b_def)

theorem filter_table_selected_witness:
  "rows (filter_table ''transmission'' \<lparr>has_MASS = True, rows = [wasp19b, zero_mass_planet]\<rparr>)
     = [wasp19b] \<and>
   rows (filter_table ''emission'' \<lparr>has_MASS = True, rows = [wasp19b, zero_mass_planet]\<rparr>)
     = [wasp19b, zero_mass_planet]"
  using filter_table_selected[of "''transmission''" "\<lparr>has_MASS = True, rows = [wasp19b, zero_mass_planet]\<rparr>"]
    filter_table_selected[of "''emission''" "\<lparr>has_MASS = True, rows = [wasp19b, zero_mass_planet]\<rparr>"]
  by (simp add: selected_def required_fields_defined_def isfinite_def gt0_def
      zero_mass_planet_def wasp19b_def)

text \<open>
  Claim C10. Every row of the table filtered for transmission has a defined mass
  above zero or a defined minimum mass above zero; so a row whose defined masses are
  zero or negative is left out.
\<close>

theorem transmission_rows_positive_mass:
  assumes "r \<in> set (rows (filter_table ''transmission'' t))"
  shows "(\<exists>m. MASS r = Some m \<and> 0 < m) \<or> (\<exists>m. MSINI r = Some m \<and> 0 < m)"
  using assms
  by (auto simp: rows_filter_table selected_def gt0_def split: option.splits if_splits)

theorem transmission_rows_positive_mass_witness:
  "wasp19b \<in> set (rows (filter_table ''transmission'' \<lparr>has_MASS = True, rows = [wasp19b, zero_mass_planet]\<rparr>)) \<and>
   ((\<exists>m. MASS wasp19b = Some m \<and> 0 < m) \<or> (\<exists>m. MSINI wasp19b = Some m \<and> 0 < m))"
proof -
  have m: "wasp19b \<in> set (rows (filter_table ''transmission''
      \<lparr>has_MASS = True, rows = [wasp19b, zero_mass_planet]\<rparr>))"
    by (simp add: rows_filter_table selected_def isfinite_def gt0_def
      zero_mass_planet_def wasp19b_def)
  from transmission_rows_positive_mass[OF m] m show ?thesis by blast
qed

section \<open>Properties of the ranking\<close>

lemma nan_last_le: "nan_last b \<le> nan_last a \<Longrightarrow> not_below a b"
  by (auto simp: nan_last_def not_below_def less_eq_prod_def split: option.splits)

lemma length_argsort: "length (argsort xs) = length xs"
  by (simp add: argsort_def)

lemma sorted_argsort: "sorted (map (\<lambda>i. nan_last (xs ! i)) (argsort xs))"
  unfolding argsort_def by (rule sorted_sort_key)

lemma perm_rank_order:
  "distinct (rank_order xs) \<and> set (rank_order xs) = {0..<length xs}"
  by (simp add: rank_order_def argsort_def)

lemma rank_order_step:
  assumes "Suc i < length xs"
  shows "nan_last (xs ! (rank_order xs ! Suc i)) \<le> nan_last (xs ! (rank_order xs ! i))"
proof -
  let ?s = "argsort xs"
  let ?n = "length xs"
  have len: "length ?s = ?n" by (rule length_argsort)
  have a: "rank_order xs ! i = ?s ! (?n - Suc i)"
    using assms len by (simp add: rank_order_def rev_nth)
  have b: "rank_order xs ! Suc i = ?s ! (?n - Suc (Suc i))"
    using assms len by (simp add: rank_order_def rev_nth)
  have "map (\<lambda>i. nan_last (xs ! i)) ?s ! (?n - Suc (Suc i))
      \<le> map (\<lambda>i. nan_last (xs ! i)) ?s ! (?n - Suc i)"
    using sorted_argsort[of xs] assms len by (intro sorted_nth_mono) simp_all
  then show ?thesis
    using a b assms len by simp
qed

text \<open>
  Claim C5, amended. The rank order is a permutation of the rows, and of two
  consecutive ranks the first holds a NaN or a score that is not below the second:
  the numbers come in descending order, after the NaNs. Nothing is said of the order
  of equal scores.
\<close>

theorem rank_order_descending:
  "distinct (rank_order xs) \<and> set (rank_order xs) = {0..<length xs} \<and>
   (\<forall>i. Suc i < length xs \<longrightarrow>
      not_below (xs ! (rank_order xs ! i)) (xs ! (rank_order xs ! Suc i)))"
  using perm_rank_order rank_order_step nan_last_le by blast

theorem rank_order_descending_witness:
  "rank_order [Some 1, Some 3, Some 2] = [1, 2, 0] \<and>
   Suc 0 < length [Some 1, Some 3, Some (2::real)] \<and>
   not_below (Some 3) (Some 2) \<and> not_below (Some 2) (Some 1)"
  using rank_order_descending[of "[Some 1, Some 3, Some 2]"]
  by (simp add: rank_order_def argsort_def nan_last_def upt_rec less_eq_prod_def not_below_def)

text \<open>
  Claim C5 as stated fails: of two rows with the same score, the second of the
  catalog gets the first rank.
\<close>

theorem rank_order_ties_counterexample:
  "rank_order [Some 1, Some 1] = [1, 0]"
  by (simp add: rank_order_def argsort_def nan_last_def upt_rec less_eq_prod_def)

section \<open>Values of the signal estimates\<close>

lemma planck_Some_pos:
  assumes "0 < wav" "0 < temp"
  shows "\<exists>b. planck wav temp = Some b \<and> 0 < b"
  using planck_value[OF assms] planck_pos[OF assms] by blast

lemma flux_of_mag:
  assumes "0 < q"
  shows "10 powr (- (m - 2.5 * log 10 q) / 2.5) = 10 powr (- m / 2.5) * q"
proof -
  have "- (m - 2.5 * log 10 q) / 2.5 = - m / 2.5 + log 10 q"
    by (simp add: field_simps)
  then have "10 powr (- (m - 2.5 * log 10 q) / 2.5) = 10 powr (- m / 2.5 + log 10 q)"
    by (simp only:)
  also have "\<dots> = 10 powr (- m / 2.5) * 10 powr (log 10 q)"
    by (rule powr_add)
  also have "10 powr (log 10 q) = q"
    using assms by simp
  finally show ?thesis .
qed

lemma snr_of_mag_value:
  assumes "planck wav temp = Some pw" "planck wb temp = Some pb" "0 < pw" "0 < pb"
  shows "snr_of_mag (Some m) wav wb (Some temp) (Some d)
       = Some (sqrt (10 powr (- m / 2.5) * (pw / pb)) * d)"
proof -
  have q: "0 < pw / pb" using assms by simp
  have d1: "np_divide pw pb = Some (pw / pb)"
    using assms by (simp add: np_divide_def)
  have l1: "np_log10 (pw / pb) = Some (log 10 (pw / pb))"
    using q by (simp add: np_log10_def)
  have s1: "np_sqrt (10 powr x) = Some (sqrt (10 powr x))" for x :: real
    by (simp add: np_sqrt_def not_less)
  have "snr_of_mag (Some m) wav wb (Some temp) (Some d)
      = Some (sqrt (10 powr (- (m - 2.5 * log 10 (pw / pb)) / 2.5)) * d)"
    unfolding snr_of_mag_def
    by (simp only: assms(1,2) d1 l1 s1 bind.bind_lunit Let_def)
  then show ?thesis
    by (simp only: flux_of_mag[OF q])
qed

lemma snr_of_mag_pos:
  assumes "0 < wav" "0 < wb" "0 < temp" "0 < d"
  shows "\<exists>x. snr_of_mag (Some m) wav wb (Some temp) (Some d) = Some x \<and> 0 < x"
proof -
  obtain pw where pw: "planck wav temp = Some pw" "0 < pw"
    using planck_Some_pos[OF assms(1,3)] by blast
  obtain pb where pb: "planck wb temp = Some pb" "0 < pb"
    using planck_Some_pos[OF assms(2,3)] by blast
  have "0 < 10 powr (- m / 2.5) * (pw / pb)"
    using pw pb by simp
  then have "0 < sqrt (10 powr (- m / 2.5) * (pw / pb)) * d"
    using assms(4) by simp
  then show ?thesis
    using snr_of_mag_value[OF pw(1) pb(1) pw(2) pb(2)] by blast
qed

lemma snr_of_mag_None [simp]: "snr_of_mag None wav wb teff signal = None"
  by (simp add: snr_of_mag_def Let_def split: Option.bind_splits)

lemma Teq_pos:
  assumes "RSTAR r = Some rstar" "A r = Some a" "TEFF r = Some tstar"
    and "0 < rstar" "0 < a" "0 < tstar"
  shows "\<exists>T. Teq r = Some T \<and> 0 < T"
proof -
  have "0 \<le> rstar" using assms by simp
  from Teq_value[OF assms(1,2,3) this assms(5)]
  have "Teq r = Some (sqrt (rstar * RSUN / 2 / (a * AU2M)) * tstar)" .
  moreover have "0 < rstar * RSUN / 2 / (a * AU2M)"
    using assms consts_pos by simp
  then have "0 < sqrt (rstar * RSUN / 2 / (a * AU2M)) * tstar"
    using assms by simp
  ultimately show ?thesis by blast
qed

lemma ratio_sq_pos:
  assumes "0 < rp" "0 < rstar"
  shows "np_divide (rp * RJUP) (rstar * RSUN) = Some (rp * RJUP / (rstar * RSUN))"
    and "0 < rp * RJUP / (rstar * RSUN)"
  using assms consts_pos by (simp_all add: np_divide_def)

lemma fratio_ec_pos:
  assumes "RSTAR r = Some rstar" "A r = Some a" "TEFF r = Some tstar" "R r = Some rp"
    and "0 < rstar" "0 < a" "0 < tstar" "0 < rp" "0 < wav"
  shows "\<exists>f. fratio_ec wav r = Some f \<and> 0 < f"
proof -
  obtain T where T: "Teq r = Some T" "0 < T"
    using Teq_pos[OF assms(1,2,3,5,6,7)] by blast
  obtain p where p: "planck wav T = Some p" "0 < p"
    using planck_Some_pos[OF assms(9) T(2)] by blast
  obtain ps where ps: "planck wav tstar = Some ps" "0 < ps"
    using planck_Some_pos[OF assms(9,7)] by blast
  have d: "np_divide p ps = Some (p / ps)"
    using ps by (simp add: np_divide_def)
  have "fratio_ec wav r = Some (p / ps * (rp * RJUP / (rstar * RSUN)) ^ 2)"
    unfolding fratio_ec_def
    by (simp only: T(1) assms(1,3,4) p(1) ps(1) d ratio_sq_pos(1)[OF assms(8,5)]
        bind.bind_lunit)
  moreover have "0 < p / ps * (rp * RJUP / (rstar * RSUN)) ^ 2"
  proof (rule mult_pos_pos)
    show "0 < p / ps" using p(2) ps(2) by (rule divide_pos_pos)
    show "0 < (rp * RJUP / (rstar * RSUN)) ^ 2"
      using ratio_sq_pos(2)[OF assms(8,5)] by (rule zero_less_power)
  qed
  ultimately show ?thesis by blast
qed

lemma snr_unnorm_ec_pos:
  assumes "RSTAR r = Some rstar" "A r = Some a" "TEFF r = Some tstar" "R r = Some rp"
    and "KS r = Some ks"
    and "0 < rstar" "0 < a" "0 < tstar" "0 < rp" "0 < wav"
  shows "\<exists>x. snr_unnorm_ec wav r = Some x \<and> 0 < x"
proof -
  obtain f where f: "fratio_ec wav r = Some f" "0 < f"
    using fratio_ec_pos[OF assms(1,2,3,4,6,7,8,9,10)] by blast
  have "(0::real) < 2.2 / 10 ^ 6" by simp
  from snr_of_mag_pos[OF assms(10) this assms(8) f(2)]
  show ?thesis
    unfolding snr_unnorm_ec_def by (simp only: assms(3,5) f(1))
qed

lemma np_divide_Some: "y \<noteq> 0 \<Longrightarrow> np_divide x y = Some (x / y)"
  by (simp add: np_divide_def)

lemma delta_tr_pos:
  assumes "RSTAR r = Some rstar" "A r = Some a" "TEFF r = Some tstar" "R r = Some rp"
    and "MPLANET mc r = Some m"
    and "0 < rstar" "0 < a" "0 < tstar" "0 < rp" "0 < m"
  shows "\<exists>d. delta_tr mc r = Some d \<and> 0 < d"
proof -
  obtain T where T: "Teq r = Some T" "0 < T"
    using Teq_pos[OF assms(1,2,3,6,7,8)] by blast
  define g where "g = G * m * MJUP / (rp * RJUP) ^ 2"
  have gpos: "0 < g"
    unfolding g_def using assms consts_pos by simp
  have rnz: "(rp * RJUP) ^ 2 \<noteq> 0"
    using assms consts_pos by simp
  have g: "little_g mc r = Some g"
    unfolding little_g_def g_def
    by (simp only: assms(4,5) bind.bind_lunit np_divide_Some[OF rnz])
  define H where "H = RGAS * T / MUJUP / g"
  have "0 < RGAS * T / MUJUP"
    using T(2) consts_pos(5,10) by simp
  then have Hpos: "0 < H"
    unfolding H_def using gpos by (rule divide_pos_pos)
  have gnz: "g \<noteq> 0" using gpos by simp
  have H: "Hatm mc r = Some H"
    unfolding Hatm_def H_def
    by (simp only: T(1) g bind.bind_lunit np_divide_Some[OF gnz])
  have nz: "(rstar * RSUN) ^ 2 \<noteq> 0"
    using assms consts_pos by simp
  have "delta_tr mc r = Some (2 * n_heights * (rp * RJUP) * H / (rstar * RSUN) ^ 2)"
    unfolding delta_tr_def
    by (simp only: assms(1,4) H bind.bind_lunit np_divide_Some[OF nz])
  moreover have "0 < 2 * n_heights * (rp * RJUP) * H / (rstar * RSUN) ^ 2"
    using assms consts_pos Hpos by (simp add: n_heights_def)
  ultimately show ?thesis by blast
qed

lemma snr_unnorm_ir_eq:
  "snr_unnorm_ir mc wav r = snr_of_mag (KS r) wav (2.2 / 10 ^ 6) (TEFF r) (delta_tr mc r)"
  by (simp add: snr_unnorm_ir_def)

lemma snr_unnorm_ir_pos:
  assumes "RSTAR r = Some rstar" "A r = Some a" "TEFF r = Some tstar" "R r = Some rp"
    and "MPLANET mc r = Some m" "KS r = Some ks"
    and "0 < rstar" "0 < a" "0 < tstar" "0 < rp" "0 < m" "0 < wav"
  shows "\<exists>x. snr_unnorm_ir mc wav r = Some x \<and> 0 < x"
proof -
  obtain d where d: "delta_tr mc r = Some d" "0 < d"
    using delta_tr_pos[OF assms(1,2,3,4,5,7,8,9,10,11)] by blast
  have "(0::real) < 2.2 / 10 ^ 6" by simp
  from snr_of_mag_pos[OF assms(12) this assms(9) d(2)]
  show ?thesis
    unfolding snr_unnorm_ir_eq by (simp only: assms(3,6) d(1))
qed

lemma val_divide_self: "x \<noteq> 0 \<Longrightarrow> val_divide (Some x) (Some x) = Some 1"
  by (simp add: val_divide_def np_divide_def)

lemma broadcast_divide_one:
  "broadcast_divide a [b] = Inr (map (\<lambda>x. val_divide x b) a)"
  by (simp add: broadcast_divide_def)

lemma emission_reference_one:
  assumes "wav \<noteq> 0"
    and "i < length (rows (filter_table ''emission'' tbl))"
    and "filter (\<lambda>r. NAME r = obj_ref) (rows (filter_table ''emission'' tbl))
           = [rows (filter_table ''emission'' tbl) ! i]"
    and "snr_unnorm_ec (wav / 10 ^ 6) (rows (filter_table ''emission'' tbl) ! i) = Some x"
    and "x \<noteq> 0"
  shows "\<exists>snr_norm. emission_snr_norm wav wav obj_ref tbl = Inr snr_norm \<and>
           length snr_norm = length (rows (filter_table ''emission'' tbl)) \<and>
           snr_norm ! i = Some 1"
proof -
  let ?t = "rows (filter_table ''emission'' tbl)"
  have "emission_snr_norm wav wav obj_ref tbl =
      Inr (map (\<lambda>y. val_divide y (Some x)) (map (snr_unnorm_ec (wav / 10 ^ 6)) ?t))"
    unfolding emission_snr_norm_def Let_def using assms(1,4)
    by (simp add: assms(3) broadcast_divide_one)
  moreover have "map (\<lambda>y. val_divide y (Some x)) (map (snr_unnorm_ec (wav / 10 ^ 6)) ?t) ! i
      = Some 1"
    using assms(2,4,5) by (simp add: val_divide_self)
  ultimately show ?thesis by simp
qed

lemma lacks_magnitude_single:
  "lacks_magnitude [r] = Inr (\<not> isfinite (KS r) \<or> \<not> isfinite (V r))"
  by (simp add: lacks_magnitude_def split: bool.splits)

lemma transmission_ir_reference_one:
  assumes "wav_vis \<noteq> 0" "wav \<noteq> 0"
    and "k < length (rows (filter_table ''transmission'' tbl))"
    and "filter (\<lambda>r. NAME r = obj_ref) (rows (filter_table ''transmission'' tbl))
           = [rows (filter_table ''transmission'' tbl) ! k]"
    and "isfinite (V (rows (filter_table ''transmission'' tbl) ! k))"
    and "snr_unnorm_ir (has_MASS tbl) (wav / 10 ^ 6)
           (rows (filter_table ''transmission'' tbl) ! k) = Some y"
    and "y \<noteq> 0"
  shows "\<exists>snr_norm_vis snr_norm_ir.
           transmission_snr_norm wav_vis wav wav obj_ref tbl = Inr (snr_norm_vis, snr_norm_ir) \<and>
           length snr_norm_ir = length (rows (filter_table ''transmission'' tbl)) \<and>
           snr_norm_ir ! k = Some 1"
proof -
  let ?t = "rows (filter_table ''transmission'' tbl)"
  let ?r = "?t ! k"
  let ?mc = "has_MASS tbl"
  have ks: "isfinite (KS ?r)"
    using assms(6) by (cases "KS ?r") (simp_all add: snr_unnorm_ir_eq isfinite_def)
  have lm: "lacks_magnitude [?r] = Inr False"
    using ks assms(5) by (simp add: lacks_magnitude_single)
  have ref: "snr_ref_ir ?mc (wav / 10 ^ 6) ?r = Some y"
    using assms(6) by (simp add: snr_ref_ir_def snr_unnorm_ir_eq)
  have "transmission_snr_norm wav_vis wav wav obj_ref tbl =
      Inr (map (\<lambda>x. val_divide x (snr_ref_vis ?mc (wav / 10 ^ 6) ?r))
             (map (snr_unnorm_vis ?mc (wav_vis / 10 ^ 6)) ?t),
           map (\<lambda>x. val_divide x (Some y)) (map (snr_unnorm_ir ?mc (wav / 10 ^ 6)) ?t))"
    unfolding transmission_snr_norm_def Let_def using assms(1,2) ref
    by (simp add: assms(4) lm broadcast_divide_one has_MASS_filter_table)
  moreover have "map (\<lambda>x. val_divide x (Some y)) (map (snr_unnorm_ir ?mc (wav / 10 ^ 6)) ?t) ! k
      = Some 1"
    using assms(3,6,7) by (simp add: val_divide_self)
  ultimately show ?thesis by simp
qed

section \<open>The score of the reference row\<close>

lemma transmission_snr_norm_single_reference:
  assumes "wav_vis \<noteq> 0" "wav_ir \<noteq> 0" "wav_ref \<noteq> 0"
    and "filter (\<lambda>r. NAME r = obj_ref) (rows (filter_table ''transmission'' tbl)) = [r]"
    and "isfinite (KS r)" "isfinite (V r)"
  shows "transmission_snr_norm wav_vis wav_ir wav_ref obj_ref tbl =
      Inr (map (\<lambda>x. val_divide x (snr_ref_vis (has_MASS tbl) (wav_ref / 10 ^ 6) r))
             (map (snr_unnorm_vis (has_MASS tbl) (wav_vis / 10 ^ 6))
                (rows (filter_table ''transmission'' tbl))),
           map (\<lambda>x. val_divide x (snr_ref_ir (has_MASS tbl) (wav_ref / 10 ^ 6) r))
             (map (snr_unnorm_ir (has_MASS tbl) (wav_ir / 10 ^ 6))
                (rows (filter_table ''transmission'' tbl))))"
proof -
  have lm: "lacks_magnitude [r] = Inr False"
    using assms(5,6) by (simp add: lacks_magnitude_single)
  show ?thesis
    unfolding transmission_snr_norm_def Let_def using assms(1,2,3)
    by (simp add: assms(4) lm broadcast_divide_one has_MASS_filter_table)
qed

lemma planck_ratio_half_wavelength:
  fixes u c a :: real
  assumes "1 < u" "u < 31" "0 < c" "0 < a"
  shows "c / (32 * a) / (u - 1) < c / a / (u ^ 2 - 1)"
proof -
  have f: "u ^ 2 - 1 = (u - 1) * (u + 1)"
    by (simp add: power2_eq_square algebra_simps)
  have "(u - 1) * (u + 1) < (u - 1) * 32"
    using assms by (intro mult_strict_left_mono) simp_all
  then have lt: "a * (u ^ 2 - 1) < 32 * a * (u - 1)"
    using assms f by simp
  have pos: "0 < a * (u ^ 2 - 1)"
    using assms f by simp
  have "c / (32 * a * (u - 1)) < c / (a * (u ^ 2 - 1))"
    using lt assms(3) by (rule divide_strict_left_mono) (use lt pos in simp)
  then show ?thesis by simp
qed

lemma exp_small: "y \<le> 2 \<Longrightarrow> exp y < (31::real)"
proof -
  assume "y \<le> 2"
  then have "exp y \<le> exp (1 + 1 :: real)" by simp
  also have "\<dots> = exp 1 * exp 1" by (rule exp_add)
  also have "\<dots> \<le> 3 * 3"
    using exp_le by (intro mult_mono) simp_all
  finally show ?thesis by simp
qed

lemma planck_half_wavelength_greater:
  assumes "0 < wav" "0 < temp" "HPLANCK * C / KB / (2 * wav) / temp \<le> 2"
  shows "\<exists>p1 p0. planck wav temp = Some p1 \<and> planck (2 * wav) temp = Some p0 \<and>
           0 < p0 \<and> p0 < p1"
proof -
  define y where "y = HPLANCK * C / KB / (2 * wav) / temp"
  define c where "c = 2 * HPLANCK * C ^ 2"
  have ypos: "0 < y"
    unfolding y_def using assms consts_pos by simp
  have "y \<le> 2"
    unfolding y_def by (rule assms(3))
  then have u: "1 < exp y" "exp y < 31"
    using ypos by (simp_all add: exp_small)
  have y2: "HPLANCK * C / KB / wav / temp = 2 * y"
    using assms by (simp add: y_def)
  have e2: "exp (2 * y) = exp y ^ 2"
    by (simp add: exp_double)
  have cpos: "0 < c" unfolding c_def using consts_pos by simp
  have w5: "(2 * wav) ^ 5 = 32 * wav ^ 5"
    by (simp add: power_mult_distrib)
  have w2: "0 < 2 * wav" using assms by simp
  have p1: "planck wav temp = Some (c / wav ^ 5 / (exp y ^ 2 - 1))"
    using planck_value[OF assms(1,2)] by (simp only: y2 e2 c_def)
  have p0: "planck (2 * wav) temp = Some (c / (32 * wav ^ 5) / (exp y - 1))"
    using planck_value[OF w2 assms(2)] by (simp only: y_def c_def w5)
  have "0 < c / (32 * wav ^ 5) / (exp y - 1)"
    using planck_pos[OF w2 assms(2)] by (simp only: y_def c_def w5)
  moreover have "c / (32 * wav ^ 5) / (exp y - 1) < c / wav ^ 5 / (exp y ^ 2 - 1)"
    using u cpos assms(1) by (intro planck_ratio_half_wavelength) simp_all
  ultimately show ?thesis
    using p1 p0 by blast
qed

lemma wasp19b_fields:
  "NAME wasp19b = ''WASP-19 b''" "RSTAR wasp19b = Some 1" "A wasp19b = Some 0.016"
  "TEFF wasp19b = Some 5500" "R wasp19b = Some 1.4" "KS wasp19b = Some 10.5"
  "V wasp19b = Some 12.3" "MASS wasp19b = Some 1.1" "MSINI wasp19b = Some 1.1"
  by (simp_all add: wasp19b_def)

lemma hd209458b_fields:
  "NAME hd209458b = ''HD 209458 b''" "RSTAR hd209458b = Some 1.155"
  "A hd209458b = Some 0.04707" "TEFF hd209458b = Some 6065" "R hd209458b = Some 1.359"
  "KS hd209458b = Some 6.308" "V hd209458b = Some 7.65" "MASS hd209458b = Some 0.69"
  "MSINI hd209458b = Some 0.69"
  by (simp_all add: hd209458b_def)

lemma rows_two_planets:
  "rows (filter_table ''emission'' two_planets) = [hd209458b, wasp19b]"
  "rows (filter_table ''transmission'' two_planets) = [hd209458b, wasp19b]"
  "has_MASS two_planets = True"
  by (simp_all add: rows_filter_table two_planets_def selected_def isfinite_def gt0_def
      wasp19b_fields hd209458b_fields)

lemma wasp19b_delta: "\<exists>d. delta_tr True wasp19b = Some d \<and> 0 < d"
  by (rule delta_tr_pos[where rstar = 1 and a = "0.016" and tstar = 5500 and rp = "1.4" and m = "1.1"])
     (simp_all add: wasp19b_fields MPLANET_def)

lemma val_divide_greater:
  "0 < b \<Longrightarrow> b < a \<Longrightarrow> val_divide (Some a) (Some b) \<noteq> Some 1"
  by (simp add: val_divide_def np_divide_def)

text \<open>
  Claim C1 as stated fails: with the infrared wavelength 1.1 and the reference
  wavelength 2.2, the normalised infrared score of the reference row is not 1.
\<close>

theorem reference_not_one_counterexample:
  "\<not> isl (transmission_snr_norm 0.7 1.1 2.2 ''WASP-19 b'' two_planets) \<and>
   NAME (rows (filter_table ''transmission'' two_planets) ! 1) = ''WASP-19 b'' \<and>
   snd (projr (transmission_snr_norm 0.7 1.1 2.2 ''WASP-19 b'' two_planets)) ! 1 \<noteq> Some 1"
proof -
  obtain d where d: "delta_tr True wasp19b = Some d" "0 < d"
    using wasp19b_delta by blast
  have "HPLANCK * C / KB / (2 * (1.1 / 10 ^ 6)) / 5500 \<le> 2"
    by (simp add: HPLANCK_def C_def KB_def)
  then obtain p1 p0 where p: "planck (1.1 / 10 ^ 6) 5500 = Some p1"
      "planck (2 * (1.1 / 10 ^ 6)) 5500 = Some p0" "0 < p0" "p0 < p1"
    using planck_half_wavelength_greater[of "1.1 / 10 ^ 6" 5500] by auto
  have two: "2 * (1.1 / 10 ^ 6) = (2.2 / 10 ^ 6 :: real)"
    by simp
  have p0: "planck (2.2 / 10 ^ 6) 5500 = Some p0"
    using p(2) by (simp only: two)
  have p1pos: "0 < p1" using p(3,4) by simp
  define F :: real where "F = 10 powr (- 10.5 / 2.5)"
  have Fpos: "0 < F" by (simp add: F_def)
  have num: "snr_unnorm_ir True (1.1 / 10 ^ 6) wasp19b = Some (sqrt (F * (p1 / p0)) * d)"
    unfolding snr_unnorm_ir_eq wasp19b_fields d(1) F_def
    by (rule snr_of_mag_value[OF p(1) p0 p1pos p(3)])
  have den: "snr_ref_ir True (2.2 / 10 ^ 6) wasp19b = Some (sqrt (F * (p0 / p0)) * d)"
    unfolding snr_ref_ir_def wasp19b_fields d(1) F_def
    by (rule snr_of_mag_value[OF p0 p0 p(3) p(3)])
  have "p0 / p0 < p1 / p0"
    using p(4,3) by (rule divide_strict_right_mono)
  then have "F * (p0 / p0) < F * (p1 / p0)"
    using Fpos by (rule mult_strict_left_mono)
  then have "sqrt (F * (p0 / p0)) < sqrt (F * (p1 / p0))"
    by simp
  then have lt: "sqrt (F * (p0 / p0)) * d < sqrt (F * (p1 / p0)) * d"
    using d(2) by simp
  have "0 < F * (p0 / p0)" using Fpos p(3) by simp
  then have "0 < sqrt (F * (p0 / p0))" by simp
  then have dpos: "0 < sqrt (F * (p0 / p0)) * d"
    using d(2) by simp
  have ne: "val_divide (snr_unnorm_ir True (1.1 / 10 ^ 6) wasp19b)
              (snr_ref_ir True (2.2 / 10 ^ 6) wasp19b) \<noteq> Some 1"
    unfolding num den using dpos lt by (rule val_divide_greater)
  have run: "transmission_snr_norm 0.7 1.1 2.2 ''WASP-19 b'' two_planets =
      Inr (map (\<lambda>x. val_divide x (snr_ref_vis True (2.2 / 10 ^ 6) wasp19b))
             (map (snr_unnorm_vis True (0.7 / 10 ^ 6)) [hd209458b, wasp19b]),
           map (\<lambda>x. val_divide x (snr_ref_ir True (2.2 / 10 ^ 6) wasp19b))
             (map (snr_unnorm_ir True (1.1 / 10 ^ 6)) [hd209458b, wasp19b]))"
    using transmission_snr_norm_single_reference[of "0.7" "1.1" "2.2" "''WASP-19 b''" two_planets wasp19b]
    by (simp add: rows_two_planets wasp19b_fields hd209458b_fields isfinite_def)
  show ?thesis
    unfolding run using ne by (simp add: rows_two_planets wasp19b_fields)
qed

text \<open>
  Claim C1, amended. When the reference identifier names one row of the filtered
  table and the raw score of that row is a number other than zero, the normalised
  score of that row is exactly 1 in the emission run whose wavelength is the
  reference wavelength, and so is its normalised infrared score in the transmission
  run whose infrared wavelength is the reference wavelength (the reference having a
  V magnitude, which the run demands).
\<close>

theorem reference_normalised_to_one:
  "(wav \<noteq> 0 \<and> i < length (rows (filter_table ''emission'' tbl)) \<and>
    filter (\<lambda>r. NAME r = obj_ref) (rows (filter_table ''emission'' tbl))
      = [rows (filter_table ''emission'' tbl) ! i] \<and>
    snr_unnorm_ec (wav / 10 ^ 6) (rows (filter_table ''emission'' tbl) ! i) = Some x \<and>
    x \<noteq> 0
    \<longrightarrow> (\<exists>snr_norm. emission_snr_norm wav wav obj_ref tbl = Inr snr_norm \<and>
           length snr_norm = length (rows (filter_table ''emission'' tbl)) \<and>
           snr_norm ! i = Some 1)) \<and>
   (wav_vis \<noteq> 0 \<and> wav \<noteq> 0 \<and> k < length (rows (filter_table ''transmission'' tbl)) \<and>
    filter (\<lambda>r. NAME r = obj_ref) (rows (filter_table ''transmission'' tbl))
      = [rows (filter_table ''transmission'' tbl) ! k] \<and>
    isfinite (V (rows (filter_table ''transmission'' tbl) ! k)) \<and>
    snr_unnorm_ir (has_MASS tbl) (wav / 10 ^ 6)
      (rows (filter_table ''transmission'' tbl) ! k) = Some y \<and>
    y \<noteq> 0
    \<longrightarrow> (\<exists>snr_norm_vis snr_norm_ir.
           transmission_snr_norm wav_vis wav wav obj_ref tbl = Inr (snr_norm_vis, snr_norm_ir) \<and>
           length snr_norm_ir = length (rows (filter_table ''transmission'' tbl)) \<and>
           snr_norm_ir ! k = Some 1))"
proof (intro conjI impI; elim conjE)
  assume "wav \<noteq> 0" "i < length (rows (filter_table ''emission'' tbl))"
    "filter (\<lambda>r. NAME r = obj_ref) (rows (filter_table ''emission'' tbl))
      = [rows (filter_table ''emission'' tbl) ! i]"
    "snr_unnorm_ec (wav / 10 ^ 6) (rows (filter_table ''emission'' tbl) ! i) = Some x"
    "x \<noteq> 0"
  then show "\<exists>snr_norm. emission_snr_norm wav wav obj_ref tbl = Inr snr_norm \<and>
           length snr_norm = length (rows (filter_table ''emission'' tbl)) \<and>
           snr_norm ! i = Some 1"
    by (rule emission_reference_one)
next
  assume "wav_vis \<noteq> 0" "wav \<noteq> 0" "k < length (rows (filter_table ''transmission'' tbl))"
    "filter (\<lambda>r. NAME r = obj_ref) (rows (filter_table ''transmission'' tbl))
      = [rows (filter_table ''transmission'' tbl) ! k]"
    "isfinite (V (rows (filter_table ''transmission'' tbl) ! k))"
    "snr_unnorm_ir (has_MASS tbl) (wav / 10 ^ 6)
      (rows (filter_table ''transmission'' tbl) ! k) = Some y"
    "y \<noteq> 0"
  then show "\<exists>snr_norm_vis snr_norm_ir.
           transmission_snr_norm wav_vis wav wav obj_ref tbl = Inr (snr_norm_vis, snr_norm_ir) \<and>
           length snr_norm_ir = length (rows (filter_table ''transmission'' tbl)) \<and>
           snr_norm_ir ! k = Some 1"
    by (rule transmission_ir_reference_one)
qed

theorem reference_normalised_to_one_witness:
  "rows (filter_table ''emission'' two_planets) ! 1 = wasp19b \<and>
   rows (filter_table ''transmission'' two_planets) ! 1 = wasp19b \<and>
   (\<exists>snr_norm. emission_snr_norm 2.2 2.2 ''WASP-19 b'' two_planets = Inr snr_norm \<and>
      length snr_norm = 2 \<and> snr_norm ! 1 = Some 1) \<and>
   (\<exists>snr_norm_vis snr_norm_ir.
      transmission_snr_norm 0.7 2.2 2.2 ''WASP-19 b'' two_planets
        = Inr (snr_norm_vis, snr_norm_ir) \<and>
      length snr_norm_ir = 2 \<and> snr_norm_ir ! 1 = Some 1)"
proof -
  obtain x where x: "snr_unnorm_ec (2.2 / 10 ^ 6) wasp19b = Some x" "0 < x"
    using snr_unnorm_ec_pos[where r = wasp19b and wav = "2.2 / 10 ^ 6" and rstar = 1
        and a = "0.016" and tstar = 5500 and rp = "1.4" and ks = "10.5"]
    by (auto simp: wasp19b_fields)
  obtain y where y: "snr_unnorm_ir True (2.2 / 10 ^ 6) wasp19b = Some y" "0 < y"
    using snr_unnorm_ir_pos[where r = wasp19b and wav = "2.2 / 10 ^ 6" and rstar = 1
        and a = "0.016" and tstar = 5500 and rp = "1.4" and ks = "10.5" and m = "1.1" and mc = True]
    by (auto simp: wasp19b_fields MPLANET_def)
  note inst = reference_normalised_to_one[where wav = "2.2" and i = 1 and k = 1
      and tbl = two_planets and obj_ref = "''WASP-19 b''" and x = x and y = y
      and wav_vis = "0.7"]
  show ?thesis
    using inst x y
    by (simp add: rows_two_planets wasp19b_fields hd209458b_fields isfinite_def
        numeral_2_eq_2)
qed

section \<open>Runs on an empty filtered table\<close>

lemma no_ks_planet_fields:
  "NAME no_ks_planet = ''KOI-1 b''" "RSTAR no_ks_planet = Some 1.1" "A no_ks_planet = Some 0.04"
  "TEFF no_ks_planet = Some 5800" "R no_ks_planet = Some 1.2" "KS no_ks_planet = None"
  "V no_ks_planet = Some 12" "MASS no_ks_planet = Some 0.8" "MSINI no_ks_planet = Some 0.8"
  by (simp_all add: no_ks_planet_def)

lemma msini_only_planet_fields:
  "NAME msini_only_planet = ''GJ-1 b''" "RSTAR msini_only_planet = Some 0.45"
  "A msini_only_planet = Some 0.029" "TEFF msini_only_planet = Some 3700"
  "R msini_only_planet = Some 0.37" "KS msini_only_planet = Some 6.1"
  "V msini_only_planet = Some 10.6" "MASS msini_only_planet = None"
  "MSINI msini_only_planet = Some 1"
  by (simp_all add: msini_only_planet_def)

lemma rank_order_Nil: "rank_order [] = []"
  by (simp add: rank_order_def argsort_def)

lemma broadcast_divide_Nil_Nil: "broadcast_divide [] [] = Inr []"
  by (simp add: broadcast_divide_def)

lemma write_loop_Nil: "write_loop f [] file = \<lparr>ending = None, outfile = Some file\<rparr>"
  by simp

lemma emission_empty:
  assumes "rows (filter_table ''emission'' tbl) = []" "wav \<noteq> 0" "wav_ref \<noteq> 0"
  shows "emission wav wav_ref obj_ref tbl = \<lparr>ending = None, outfile = Some [Header 0]\<rparr>"
  using assms
  by (simp add: emission_def emission_snr_norm_def broadcast_divide_Nil_Nil rank_order_Nil)

lemma lacks_magnitude_Nil: "lacks_magnitude [] = Inr False"
  by (simp add: lacks_magnitude_def)

lemma transmission_empty:
  assumes "rows (filter_table ''transmission'' tbl) = []"
    "wav_vis \<noteq> 0" "wav_ir \<noteq> 0" "wav_ref \<noteq> 0"
  shows "transmission wav_vis wav_ir wav_ref obj_ref tbl
       = \<lparr>ending = None, outfile = Some [Header 0]\<rparr>"
  using assms
  by (simp add: transmission_def transmission_snr_norm_def lacks_magnitude_Nil
      broadcast_divide_Nil_Nil rank_order_Nil)

text \<open>
  Claim C4, amended. When no row passes the filter, \<open>filter_table\<close> returns the empty
  table, and a run with wavelengths other than zero writes the header of its report
  and returns normally.
\<close>

theorem empty_filtered_table_report:
  "(rows (filter_table ''emission'' tbl) = [] \<and> wav \<noteq> 0 \<and> wav_ref \<noteq> 0 \<longrightarrow>
      emission wav wav_ref obj_ref tbl = \<lparr>ending = None, outfile = Some [Header 0]\<rparr>) \<and>
   (rows (filter_table ''transmission'' tbl) = [] \<and>
      wav_vis \<noteq> 0 \<and> wav_ir \<noteq> 0 \<and> wav_ref \<noteq> 0 \<longrightarrow>
      transmission wav_vis wav_ir wav_ref obj_ref tbl
        = \<lparr>ending = None, outfile = Some [Header 0]\<rparr>)"
  using emission_empty transmission_empty by blast

lemma rows_empty_catalog:
  "rows (filter_table sigtype \<lparr>has_MASS = True, rows = []\<rparr>) = []"
  by (simp add: rows_filter_table)

theorem empty_filtered_table_report_witness:
  "rows (filter_table ''emission'' \<lparr>has_MASS = True, rows = []\<rparr>) = [] \<and>
   rows (filter_table ''transmission'' \<lparr>has_MASS = True, rows = []\<rparr>) = [] \<and>
   emission 2.2 2.2 ''WASP-19 b'' \<lparr>has_MASS = True, rows = []\<rparr>
     = \<lparr>ending = None, outfile = Some [Header 0]\<rparr> \<and>
   transmission 0.7 2.2 2.2 ''WASP-19 b'' \<lparr>has_MASS = True, rows = []\<rparr>
     = \<lparr>ending = None, outfile = Some [Header 0]\<rparr>"
  using empty_filtered_table_report[where tbl = "\<lparr>has_MASS = True, rows = []\<rparr>"
      and wav = "2.2" and wav_ref = "2.2" and wav_vis = "0.7" and wav_ir = "2.2"
      and obj_ref = "''WASP-19 b''"]
  by (simp add: rows_empty_catalog)

text \<open>
  Claim C4 as stated fails: on a catalog whose only row has no K magnitude the
  table filtered for emission is empty, and the emission run returns normally with
  an output file.
\<close>

theorem empty_filtered_table_counterexample:
  "rows (filter_table ''emission'' \<lparr>has_MASS = True, rows = [no_ks_planet]\<rparr>) = [] \<and>
   emission 2.2 2.2 ''WASP-19 b'' \<lparr>has_MASS = True, rows = [no_ks_planet]\<rparr>
     = \<lparr>ending = None, outfile = Some [Header 0]\<rparr>"
proof -
  have e: "rows (filter_table ''emission'' \<lparr>has_MASS = True, rows = [no_ks_planet]\<rparr>) = []"
    by (simp add: rows_filter_table selected_def isfinite_def no_ks_planet_fields)
  then show ?thesis
    by (simp add: emission_empty)
qed

section \<open>Runs without their reference row\<close>

lemma broadcast_divide_mismatch:
  "2 \<le> length a \<Longrightarrow> broadcast_divide a [] = Inl ValueError"
  by (auto simp: broadcast_divide_def)

lemma emission_reference_absent:
  assumes "filter (\<lambda>r. NAME r = obj_ref) (rows (filter_table ''emission'' tbl)) = []"
    and "2 \<le> length (rows (filter_table ''emission'' tbl))"
  shows "emission wav wav_ref obj_ref tbl =
    \<lparr>ending = Some (Raises (if wav = 0 \<or> wav_ref = 0 then ZeroDivisionError else ValueError)),
     outfile = None\<rparr>"
  using assms
  by (simp add: emission_def emission_snr_norm_def broadcast_divide_mismatch)

lemma transmission_reference_absent:
  assumes "filter (\<lambda>r. NAME r = obj_ref) (rows (filter_table ''transmission'' tbl)) = []"
    and "2 \<le> length (rows (filter_table ''transmission'' tbl))"
  shows "transmission wav_vis wav_ir wav_ref obj_ref tbl =
    \<lparr>ending = Some (Raises (if wav_vis = 0 \<or> wav_ir = 0 \<or> wav_ref = 0
                              then ZeroDivisionError else ValueError)),
     outfile = None\<rparr>"
  using assms
  by (simp add: transmission_def transmission_snr_norm_def lacks_magnitude_Nil
      broadcast_divide_mismatch)

lemma transmission_reference_lacks_magnitude:
  assumes "filter (\<lambda>r. NAME r = obj_ref) (rows (filter_table ''transmission'' tbl)) = [r]"
    and "\<not> (isfinite (KS r) \<and> isfinite (V r))"
  shows "transmission wav_vis wav_ir wav_ref obj_ref tbl =
    \<lparr>ending = Some Returns_None, outfile = None\<rparr>"
  using assms
  by (auto simp: transmission_def transmission_snr_norm_def lacks_magnitude_single)

text \<open>
  Claim C3, amended. When the reference identifier names one row of the table
  filtered for transmission and that row lacks its K or its V magnitude, the
  transmission run returns \<^verbatim>\<open>None\<close> and opens no output file. When the reference
  identifier names no row of the filtered table and that table has two rows or
  more, the emission run and the transmission run end by an exception (ValueError
  from the division of the arrays, ZeroDivisionError for a wavelength zero) and open
  no output file.
\<close>

theorem missing_reference_no_output:
  "(filter (\<lambda>r. NAME r = obj_ref) (rows (filter_table ''transmission'' tbl)) = [r] \<and>
    \<not> (isfinite (KS r) \<and> isfinite (V r)) \<longrightarrow>
      transmission wav_vis wav_ir wav_ref obj_ref tbl =
        \<lparr>ending = Some Returns_None, outfile = None\<rparr>) \<and>
   (filter (\<lambda>r. NAME r = obj_ref) (rows (filter_table ''emission'' tbl)) = [] \<and>
    2 \<le> length (rows (filter_table ''emission'' tbl)) \<longrightarrow>
      emission wav wav_ref obj_ref tbl =
        \<lparr>ending = Some (Raises (if wav = 0 \<or> wav_ref = 0
                                  then ZeroDivisionError else ValueError)),
         outfile = None\<rparr>) \<and>
   (filter (\<lambda>r. NAME r = obj_ref) (rows (filter_table ''transmission'' tbl)) = [] \<and>
    2 \<le> length (rows (filter_table ''transmission'' tbl)) \<longrightarrow>
      transmission wav_vis wav_ir wav_ref obj_ref tbl =
        \<lparr>ending = Some (Raises (if wav_vis = 0 \<or> wav_ir = 0 \<or> wav_ref = 0
                                  then ZeroDivisionError else ValueError)),
         outfile = None\<rparr>)"
  using transmission_reference_lacks_magnitude emission_reference_absent
    transmission_reference_absent by blast

lemma rows_no_ks_catalog:
  "rows (filter_table ''transmission'' no_ks_catalog) = [wasp19b, no_ks_planet]"
  "has_MASS no_ks_catalog = True"
  by (simp_all add: rows_filter_table no_ks_catalog_def selected_def isfinite_def gt0_def
      wasp19b_fields no_ks_planet_fields)

theorem missing_reference_no_output_witness:
  "filter (\<lambda>r. NAME r = ''KOI-1 b'') (rows (filter_table ''transmission'' no_ks_catalog))
     = [no_ks_planet] \<and>
   KS no_ks_planet = None \<and>
   transmission 0.7 2.2 2.2 ''KOI-1 b'' no_ks_catalog
     = \<lparr>ending = Some Returns_None, outfile = None\<rparr> \<and>
   filter (\<lambda>r. NAME r = ''CoRoT-1 b'') (rows (filter_table ''emission'' two_planets)) = [] \<and>
   filter (\<lambda>r. NAME r = ''CoRoT-1 b'') (rows (filter_table ''transmission'' two_planets)) = [] \<and>
   emission 2.2 2.2 ''CoRoT-1 b'' two_planets
     = \<lparr>ending = Some (Raises ValueError), outfile = None\<rparr> \<and>
   transmission 0.7 2.2 2.2 ''CoRoT-1 b'' two_planets
     = \<lparr>ending = Some (Raises ValueError), outfile = None\<rparr>"
proof -
  note a = missing_reference_no_output[where obj_ref = "''KOI-1 b''" and tbl = no_ks_catalog
      and r = no_ks_planet and wav_vis = "0.7" and wav_ir = "2.2" and wav_ref = "2.2",
      THEN conjunct1]
  note b = missing_reference_no_output[where obj_ref = "''CoRoT-1 b''" and tbl = two_planets
      and wav = "2.2" and wav_vis = "0.7" and wav_ir = "2.2" and wav_ref = "2.2",
      THEN conjunct2]
  show ?thesis
    using a b
    by (simp add: rows_no_ks_catalog rows_two_planets wasp19b_fields hd209458b_fields
        no_ks_planet_fields isfinite_def)
qed

lemma rows_one_planet:
  "rows (filter_table ''emission'' one_planet) = [hd209458b]"
  by (simp add: rows_filter_table one_planet_def selected_def isfinite_def hd209458b_fields)

text \<open>
  Claim C3 as stated fails: on a catalog of one row, with a reference identifier
  that names no row, the emission run opens its output file and writes the header
  before it ends by IndexError.
\<close>

theorem missing_reference_output_counterexample:
  "filter (\<lambda>r. NAME r = ''WASP-19 b'') (rows (filter_table ''emission'' one_planet)) = [] \<and>
   emission 2.2 2.2 ''WASP-19 b'' one_planet
     = \<lparr>ending = Some (Raises IndexError), outfile = Some [Header 1]\<rparr>"
  by (simp add: emission_def emission_snr_norm_def rows_one_planet hd209458b_fields
      broadcast_divide_def rank_order_Nil lookup_def entry_ec_def)

section \<open>Rows without K magnitude or without mass\<close>

lemma val_divide_None [simp]: "val_divide None b = None"
  by (simp add: val_divide_def)

lemma snr_of_mag_no_signal [simp]: "snr_of_mag m wav wb teff None = None"
  by (simp add: snr_of_mag_def Let_def split: Option.bind_splits)

lemma no_ks_delta: "\<exists>d. delta_tr True no_ks_planet = Some d \<and> 0 < d"
  by (rule delta_tr_pos[where rstar = "1.1" and a = "0.04" and tstar = 5800 and rp = "1.2"
        and m = "0.8"])
     (simp_all add: no_ks_planet_fields MPLANET_def)

text \<open>
  Claim C2, on the code: for a row of the filtered table without K magnitude the
  visible raw score is computed from the V magnitude with 0.6 micron, and the
  infrared raw score is computed from the K magnitude, a NaN, and is a NaN, as is
  the normalised infrared score of the row.
\<close>

theorem infrared_score_without_KS:
  "no_ks_planet \<in> set (rows (filter_table ''transmission'' no_ks_catalog)) \<and>
   KS no_ks_planet = None \<and> V no_ks_planet = Some 12 \<and>
   snr_unnorm_vis True (0.7 / 10 ^ 6) no_ks_planet
     = snr_of_mag (V no_ks_planet) (0.7 / 10 ^ 6) (0.6 / 10 ^ 6) (TEFF no_ks_planet)
         (delta_tr True no_ks_planet) \<and>
   snr_unnorm_vis True (0.7 / 10 ^ 6) no_ks_planet \<noteq> None \<and>
   snr_unnorm_ir True (2.2 / 10 ^ 6) no_ks_planet = None \<and>
   snd (projr (transmission_snr_norm 0.7 2.2 2.2 ''WASP-19 b'' no_ks_catalog)) ! 1 = None"
proof -
  obtain d where d: "delta_tr True no_ks_planet = Some d" "0 < d"
    using no_ks_delta by blast
  have vis: "snr_unnorm_vis True (0.7 / 10 ^ 6) no_ks_planet
     = snr_of_mag (V no_ks_planet) (0.7 / 10 ^ 6) (0.6 / 10 ^ 6) (TEFF no_ks_planet)
         (delta_tr True no_ks_planet)"
    by (simp add: snr_unnorm_vis_def isfinite_def no_ks_planet_fields)
  have "\<exists>x. snr_of_mag (Some 12) (0.7 / 10 ^ 6) (0.6 / 10 ^ 6) (Some 5800) (Some d) = Some x \<and> 0 < x"
    using d(2) by (intro snr_of_mag_pos) simp_all
  then have vis_def: "snr_unnorm_vis True (0.7 / 10 ^ 6) no_ks_planet \<noteq> None"
    unfolding vis by (auto simp: no_ks_planet_fields d(1))
  have ir: "snr_unnorm_ir True (2.2 / 10 ^ 6) no_ks_planet = None"
    by (simp add: snr_unnorm_ir_eq no_ks_planet_fields)
  have run: "transmission_snr_norm 0.7 2.2 2.2 ''WASP-19 b'' no_ks_catalog =
      Inr (map (\<lambda>x. val_divide x (snr_ref_vis True (2.2 / 10 ^ 6) wasp19b))
             (map (snr_unnorm_vis True (0.7 / 10 ^ 6)) [wasp19b, no_ks_planet]),
           map (\<lambda>x. val_divide x (snr_ref_ir True (2.2 / 10 ^ 6) wasp19b))
             (map (snr_unnorm_ir True (2.2 / 10 ^ 6)) [wasp19b, no_ks_planet]))"
    using transmission_snr_norm_single_reference[of "0.7" "2.2" "2.2" "''WASP-19 b''"
        no_ks_catalog wasp19b]
    by (simp add: rows_no_ks_catalog wasp19b_fields no_ks_planet_fields isfinite_def)
  show ?thesis
    unfolding run using vis vis_def ir
    by (simp add: rows_no_ks_catalog no_ks_planet_fields)
qed

lemma rows_msini_only_catalog:
  "rows (filter_table ''transmission'' msini_only_catalog) = [wasp19b, msini_only_planet]"
  "has_MASS (filter_table ''transmission'' msini_only_catalog) = True"
  by (simp_all add: rows_filter_table has_MASS_filter_table msini_only_catalog_def selected_def
      isfinite_def gt0_def wasp19b_fields msini_only_planet_fields)

lemma rank_order_nan_second: "rank_order [x, None] = [1, 0]"
  by (cases x) (simp_all add: rank_order_def argsort_def nan_last_def upt_rec less_eq_prod_def)

lemma msini_only_no_score:
  "MPLANET True msini_only_planet = None" "little_g True msini_only_planet = None"
  "Hatm True msini_only_planet = None" "delta_tr True msini_only_planet = None"
  "snr_unnorm_vis True wav msini_only_planet = None"
  "snr_unnorm_ir True wav msini_only_planet = None"
proof -
  show m: "MPLANET True msini_only_planet = None"
    by (simp add: MPLANET_def msini_only_planet_fields)
  show g: "little_g True msini_only_planet = None"
    by (simp add: little_g_def m)
  show h: "Hatm True msini_only_planet = None"
    by (simp add: Hatm_def g split: Option.bind_splits)
  show d: "delta_tr True msini_only_planet = None"
    by (simp add: delta_tr_def h split: Option.bind_splits)
  show "snr_unnorm_vis True wav msini_only_planet = None"
    by (simp add: snr_unnorm_vis_def d)
  show "snr_unnorm_ir True wav msini_only_planet = None"
    by (simp add: snr_unnorm_ir_eq d)
qed

text \<open>
  Claim C6, on the code: a row with a minimum mass and a NaN mass, in a table with a
  mass column, passes the filter; the mass taken for it is the NaN, its surface
  gravity and its scores are NaN, and the run ends by ValueError when it formats the
  line of that row, with the header alone in the output file.
\<close>

theorem minimum_mass_not_used:
  "msini_only_planet \<in> set (rows (filter_table ''transmission'' msini_only_catalog)) \<and>
   MASS msini_only_planet = None \<and> MSINI msini_only_planet = Some 1 \<and>
   MPLANET (has_MASS (filter_table ''transmission'' msini_only_catalog)) msini_only_planet = None \<and>
   little_g True msini_only_planet = None \<and>
   snr_unnorm_vis True (0.7 / 10 ^ 6) msini_only_planet = None \<and>
   transmission 0.7 2.2 2.2 ''WASP-19 b'' msini_only_catalog
     = \<lparr>ending = Some (Raises ValueError), outfile = Some [Header 2]\<rparr>"
proof -
  have run: "transmission_snr_norm 0.7 2.2 2.2 ''WASP-19 b'' msini_only_catalog =
      Inr (map (\<lambda>x. val_divide x (snr_ref_vis True (2.2 / 10 ^ 6) wasp19b))
             (map (snr_unnorm_vis True (0.7 / 10 ^ 6)) [wasp19b, msini_only_planet]),
           map (\<lambda>x. val_divide x (snr_ref_ir True (2.2 / 10 ^ 6) wasp19b))
             (map (snr_unnorm_ir True (2.2 / 10 ^ 6)) [wasp19b, msini_only_planet]))"
    using transmission_snr_norm_single_reference[of "0.7" "2.2" "2.2" "''WASP-19 b''"
        msini_only_catalog wasp19b]
    using rows_msini_only_catalog
    by (simp add: has_MASS_filter_table wasp19b_fields msini_only_planet_fields isfinite_def)
  have "transmission 0.7 2.2 2.2 ''WASP-19 b'' msini_only_catalog
     = \<lparr>ending = Some (Raises ValueError), outfile = Some [Header 2]\<rparr>"
    unfolding transmission_def run
    by (simp add: rows_msini_only_catalog msini_only_no_score rank_order_nan_second
        upt_rec entry_tr_def lookup_def make_outstr_tr_def)
  then show ?thesis
    by (simp add: rows_msini_only_catalog msini_only_no_score msini_only_planet_fields)
qed

end
